theory Spec2Isabelle
  imports Complex_Main
begin

text \<open>
  A shallow embedding of \<^verbatim>\<open>deadlinks.py\<close>, the plugin that checks the external links of
  a rendered page and annotates the dead ones. Each function of the source is a HOL
  function of the same name. What the source does to the world (cache files, requests)
  is explicit state passing on a record \<open>world\<close>; what it does to the parsed document
  is a function from tree to tree; an exception is the left summand of the result. The
  HTML parser and serialiser and the network are parameters.
\<close>

section \<open>Python values, options and errors\<close>

text \<open>
  The values that occur in the host's settings and in the options dictionary
  \<^verbatim>\<open>DEADLINK_OPTS\<close>. A dictionary is an association list in insertion order; a key is
  looked up with \<open>map_of\<close>, which returns the first binding.
\<close>

datatype pyval =
    PNone
  | PBool bool
  | PInt int
  | PStr string
  | PList "string list"
  | PDict "(string \<times> pyval) list"

type_synonym dict = "(string \<times> pyval) list"

text \<open>Python's truth value of an object, as \<^verbatim>\<open>if x:\<close>, \<^verbatim>\<open>not x\<close> and \<^verbatim>\<open>and\<close>/\<^verbatim>\<open>or\<close> read it.\<close>

fun truthy :: "pyval \<Rightarrow> bool" where
  "truthy PNone = False"
| "truthy (PBool b) = b"
| "truthy (PInt i) = (i \<noteq> 0)"
| "truthy (PStr s) = (s \<noteq> [])"
| "truthy (PList xs) = (xs \<noteq> [])"
| "truthy (PDict d) = (d \<noteq> [])"

datatype error =
    KeyError string
  | TypeError
  | AttributeError
  | OperationalError

text \<open>\<^verbatim>\<open>DEFAULT_OPTS\<close> (lines 15-22).\<close>

definition DEFAULT_OPTS :: dict where
  "DEFAULT_OPTS =
     [(''archive'', PBool True),
      (''classes'', PList []),
      (''labels'', PBool False),
      (''timeout_duration_ms'', PInt 1000),
      (''timeout_is_error'', PBool False),
      (''cache_file'', PNone)]"

text \<open>
  \<^verbatim>\<open>get_opt\<close> (lines 104-112):
  \<^verbatim>\<open>return opts[name] if name in opts else DEFAULT_OPTS[name]\<close>.
  A name that neither dictionary has raises \<^verbatim>\<open>KeyError\<close>.
\<close>

definition get_opt :: "dict \<Rightarrow> string \<Rightarrow> error + pyval" where
  "get_opt opts name =
     (case map_of opts name of
        Some v \<Rightarrow> Inr v
      | None \<Rightarrow>
          (case map_of DEFAULT_OPTS name of
             Some v \<Rightarrow> Inr v
           | None \<Rightarrow> Inl (KeyError name)))"

text \<open>\<^verbatim>\<open>s.startswith(p)\<close> on strings.\<close>

definition startswith :: "string \<Rightarrow> string \<Rightarrow> bool" where
  "startswith s p = (take (length p) s = p)"

section \<open>The world: cache files, the HTTP capability, and a trace of effects\<close>

text \<open>
  A row of table \<^verbatim>\<open>url_cache\<close> as SQLite stores it: the columns availability,
  success and code, each an integer or NULL (\<open>None\<close>). Python's \<^verbatim>\<open>True\<close>/\<^verbatim>\<open>False\<close>
  are stored as 1/0 and \<^verbatim>\<open>None\<close> as NULL.
\<close>

type_synonym row = "int option \<times> int option \<times> int option"

text \<open>
  An Outcome as the classifier returns it: (availability, success, code), where
  \<open>None\<close> is the source's \<^verbatim>\<open>UNKNOWN = None\<close> in the first two components and the
  absent status code in the third.
\<close>

type_synonym outcome = "bool option \<times> bool option \<times> int option"

text \<open>
  Every effect the program has outside the document is recorded in a trace, in the
  order it happens: requests, cache accesses, and the two annotation entry points
  (with the identity of the anchor they are called on).
\<close>

datatype event =
    HttpGet string real
  | CacheInit string
  | CacheGet string string
  | CachePut string string row
  | ConnectionErrorCall nat
  | AccessErrorCall nat int

text \<open>
  \<open>dbs path\<close> is the table \<^verbatim>\<open>url_cache\<close> of the database file at \<open>path\<close>, keyed by
  URL (its primary key); \<open>None\<close> when the file has no such table (yet).
\<close>

record world =
  dbs :: "string \<Rightarrow> (string \<Rightarrow> row option) option"
  trace :: "event list"

text \<open>
  What \<^verbatim>\<open>requests.get(url, timeout=...)\<close> does: a response with a status code, the
  exception \<^verbatim>\<open>Timeout\<close>, or another \<^verbatim>\<open>RequestException\<close>. The network is a
  parameter \<open>net\<close> of the model: its answer may depend on the URL, the timeout (in seconds)
  and on how many requests were made before, so two requests for one URL may differ.
\<close>

datatype http_result = Response int | TimeoutExc | RequestExc

type_synonym network = "nat \<Rightarrow> string \<Rightarrow> real \<Rightarrow> http_result"

fun is_request :: "event \<Rightarrow> bool" where
  "is_request (HttpGet u t) = True"
| "is_request e = False"

definition requests_made :: "world \<Rightarrow> nat" where
  "requests_made st = length (filter is_request (trace st))"

definition emit :: "event \<Rightarrow> world \<Rightarrow> world" where
  "emit e st = st\<lparr>trace := trace st @ [e]\<rparr>"

section \<open>Cache Store\<close>

text \<open>
  \<^verbatim>\<open>initialize_cache\<close> (lines 28-40): \<^verbatim>\<open>CREATE TABLE IF NOT EXISTS\<close>. The path is the
  value of option \<^verbatim>\<open>cache_file\<close>; \<^verbatim>\<open>sqlite3.connect\<close> takes a string.
\<close>

definition initialize_cache :: "pyval \<Rightarrow> world \<Rightarrow> world \<times> error option" where
  "initialize_cache cache_file st =
     (case cache_file of
        PStr path \<Rightarrow>
          (emit (CacheInit path)
             (st\<lparr>dbs := (dbs st)(path :=
                Some (case dbs st path of None \<Rightarrow> (\<lambda>u. None) | Some tbl \<Rightarrow> tbl))\<rparr>),
           None)
      | _ \<Rightarrow> (st, Some TypeError))"

text \<open>Python's \<^verbatim>\<open>bool(x)\<close> of a column read back: NULL and 0 are false.\<close>

fun py_bool :: "int option \<Rightarrow> bool" where
  "py_bool None = False"
| "py_bool (Some i) = (i \<noteq> 0)"

text \<open>
  \<^verbatim>\<open>get_cached_status\<close> (lines 42-51). The row, when there is one, is a non-empty tuple
  and so true; the result is \<^verbatim>\<open>(bool(availability), bool(success), code)\<close>.
  A \<^verbatim>\<open>SELECT\<close> on a file without the table raises \<^verbatim>\<open>sqlite3.OperationalError\<close>.
\<close>

definition get_cached_status :: "string \<Rightarrow> pyval \<Rightarrow> world \<Rightarrow> world \<times> (error + outcome option)" where
  "get_cached_status url cache_file st =
     (case cache_file of
        PStr path \<Rightarrow>
          (case dbs st path of
             None \<Rightarrow> (st, Inl OperationalError)
           | Some tbl \<Rightarrow>
               (emit (CacheGet url path) st,
                Inr (case tbl url of
                       None \<Rightarrow> None
                     | Some (availability, success, code) \<Rightarrow>
                         Some (Some (py_bool availability), Some (py_bool success), code))))
      | _ \<Rightarrow> (st, Inl TypeError))"

text \<open>How SQLite stores a Python \<^verbatim>\<open>True\<close>, \<^verbatim>\<open>False\<close> or \<^verbatim>\<open>None\<close>.\<close>

fun sql_of_bool :: "bool option \<Rightarrow> int option" where
  "sql_of_bool None = None"
| "sql_of_bool (Some b) = Some (if b then 1 else 0)"

text \<open>\<^verbatim>\<open>update_cache\<close> (lines 53-61): \<^verbatim>\<open>REPLACE INTO url_cache\<close>, keyed by the URL.\<close>

definition update_cache :: "string \<Rightarrow> outcome \<Rightarrow> pyval \<Rightarrow> world \<Rightarrow> world \<times> error option" where
  "update_cache url out cache_file st =
     (case cache_file of
        PStr path \<Rightarrow>
          (case dbs st path of
             None \<Rightarrow> (st, Some OperationalError)
           | Some tbl \<Rightarrow>
               (case out of (availability, success, code) \<Rightarrow>
                  let r = (sql_of_bool availability, sql_of_bool success, code) in
                  (emit (CachePut url path r)
                     (st\<lparr>dbs := (dbs st)(path := Some (tbl(url := Some r)))\<rparr>),
                   None)))
      | _ \<Rightarrow> (st, Some TypeError))"

section \<open>Outcome Classifier\<close>

text \<open>
  \<^verbatim>\<open>opts['timeout_duration_ms'] / MS_IN_SECOND\<close> (line 76) for the value found under the
  key: Python divides an \<^verbatim>\<open>int\<close> (and a \<^verbatim>\<open>bool\<close>, which is an \<^verbatim>\<open>int\<close>) by
  \<^verbatim>\<open>1000.0\<close> and raises \<^verbatim>\<open>TypeError\<close> for the other values. The quotient is only
  handed to the HTTP capability; it is kept exact here.
\<close>

fun timeout_seconds :: "pyval \<Rightarrow> error + real" where
  "timeout_seconds (PInt i) = Inr (real_of_int i / 1000)"
| "timeout_seconds (PBool b) = Inr ((if b then 1 else 0) / 1000)"
| "timeout_seconds v = Inl TypeError"

text \<open>Lines 78-87: the request and the three ways it ends.\<close>

fun classify :: "http_result \<Rightarrow> outcome" where
  "classify (Response code) = (Some True, Some (code = 200), Some code)"
| "classify TimeoutExc = (Some False, None, None)"
| "classify RequestExc = (None, Some False, None)"

text \<open>
  \<^verbatim>\<open>get_status_code\<close> (lines 63-92). The timeout is read with \<^verbatim>\<open>opts[...]\<close>, not with
  \<^verbatim>\<open>get_opt\<close>: a dictionary without the key raises \<^verbatim>\<open>KeyError\<close> (after a cache miss,
  before the request).
\<close>

definition get_status_code ::
  "network \<Rightarrow> string \<Rightarrow> dict \<Rightarrow> pyval \<Rightarrow> world \<Rightarrow> world \<times> (error + outcome)" where
  "get_status_code net url opts cache_file st =
     (case (if truthy cache_file then get_cached_status url cache_file st else (st, Inr None)) of
        (st1, Inl e) \<Rightarrow> (st1, Inl e)
      | (st1, Inr (Some cached)) \<Rightarrow> (st1, Inr cached)
      | (st1, Inr None) \<Rightarrow>
          (case map_of opts ''timeout_duration_ms'' of
             None \<Rightarrow> (st1, Inl (KeyError ''timeout_duration_ms''))
           | Some ms \<Rightarrow>
               (case timeout_seconds ms of
                  Inl e \<Rightarrow> (st1, Inl e)
                | Inr timeout_duration_seconds \<Rightarrow>
                    let out = classify (net (requests_made st1) url timeout_duration_seconds);
                        st2 = emit (HttpGet url timeout_duration_seconds) st1
                    in if truthy cache_file
                       then (case update_cache url out cache_file st2 of
                               (st3, Some e) \<Rightarrow> (st3, Inl e)
                             | (st3, None) \<Rightarrow> (st3, Inr out))
                       else (st2, Inr out))))"

section \<open>The document tree\<close>

text \<open>
  The tree that \<^verbatim>\<open>BeautifulSoup(content, 'html.parser')\<close> builds. A tag is a mutable
  object: \<open>ident\<close> is its identity (the handle the loop holds), the other fields are its
  value. The parser delivers the value of \<^verbatim>\<open>class\<close> as a list of strings (\<open>None\<close> when
  the tag has no such attribute) and the values the program reads from the other
  attributes (\<^verbatim>\<open>href\<close>) as strings; \<open>tag_attrs\<close> is the dictionary of the attributes other
  than \<^verbatim>\<open>class\<close>, in insertion order.
\<close>

datatype node =
    NavigableString string
  | Tag (ident: nat) (tag_name: string) (tag_class: "string list option")
        (tag_attrs: "(string \<times> string) list") (contents: "node list")

text \<open>
  Equality of two elements as \<^verbatim>\<open>==\<close> decides it. The HTML library compares by value,
  not by identity: two strings are equal when they are the same text, and
  \<^verbatim>\<open>Tag.__eq__\<close> makes two tags equal when they have the same name, the same attributes
  (compared as dictionaries, so in any order) and as many contents, pairwise equal,
  whichever objects they are. A string and a tag are never equal.
\<close>

definition dict_eq :: "(string \<times> string) list \<Rightarrow> (string \<times> string) list \<Rightarrow> bool" where
  "dict_eq a b =
     (list_all (\<lambda>kv. map_of b (fst kv) = map_of a (fst kv)) a \<and>
      list_all (\<lambda>kv. map_of a (fst kv) = map_of b (fst kv)) b)"

fun node_eq :: "node \<Rightarrow> node \<Rightarrow> bool"
  and nodes_eq :: "node list \<Rightarrow> node list \<Rightarrow> bool" where
  "node_eq (NavigableString s) (NavigableString t) = (s = t)"
| "node_eq (Tag i n c a cs) (Tag j m d b ds) = (n = m \<and> c = d \<and> dict_eq a b \<and> nodes_eq cs ds)"
| "node_eq (NavigableString s) (Tag j m d b ds) = False"
| "node_eq (Tag i n c a cs) (NavigableString t) = False"
| "nodes_eq [] [] = True"
| "nodes_eq (x # xs) (y # ys) = (node_eq x y \<and> nodes_eq xs ys)"
| "nodes_eq [] (y # ys) = False"
| "nodes_eq (x # xs) [] = False"

text \<open>
  \<^verbatim>\<open>soup_doc.find_all(['a', 'object'])\<close>: the tags with one of the names, in document
  order (a tag before its descendants), as the list of their identities.
\<close>

fun find_all :: "string list \<Rightarrow> node list \<Rightarrow> nat list" where
  "find_all names [] = []"
| "find_all names (NavigableString s # ns) = find_all names ns"
| "find_all names (Tag i n c a cs # ns) =
     (if n \<in> set names then [i] else []) @ find_all names cs @ find_all names ns"

text \<open>The tag with identity \<open>i\<close>, wherever it is in the tree.\<close>

fun find_tag :: "nat \<Rightarrow> node list \<Rightarrow> node option" where
  "find_tag i [] = None"
| "find_tag i (NavigableString s # ns) = find_tag i ns"
| "find_tag i (Tag j n c a cs # ns) =
     (if i = j then Some (Tag j n c a cs)
      else (case find_tag i cs of Some t \<Rightarrow> Some t | None \<Rightarrow> find_tag i ns))"

text \<open>\<^verbatim>\<open>anchor.attrs\<close> without \<^verbatim>\<open>class\<close>, and \<^verbatim>\<open>anchor.get('class')\<close>.\<close>

definition anchor_attrs :: "node list \<Rightarrow> nat \<Rightarrow> (string \<times> string) list" where
  "anchor_attrs soup i = (case find_tag i soup of Some (Tag j n c a cs) \<Rightarrow> a | _ \<Rightarrow> [])"

definition anchor_class :: "node list \<Rightarrow> nat \<Rightarrow> string list option" where
  "anchor_class soup i = (case find_tag i soup of Some (Tag j n c a cs) \<Rightarrow> c | _ \<Rightarrow> None)"

text \<open>\<^verbatim>\<open>d[k] = v\<close> on a dictionary: an existing key keeps its place, a new one goes last.\<close>

fun dict_set :: "string \<Rightarrow> string \<Rightarrow> (string \<times> string) list \<Rightarrow> (string \<times> string) list" where
  "dict_set k v [] = [(k, v)]"
| "dict_set k v (p # d) = (if fst p = k then (k, v) # d else p # dict_set k v d)"

text \<open>\<^verbatim>\<open>anchor['class'] = v\<close> and \<^verbatim>\<open>anchor[k] = v\<close> for the tag with identity \<open>i\<close>.\<close>

fun set_class :: "nat \<Rightarrow> string list \<Rightarrow> node list \<Rightarrow> node list" where
  "set_class i v [] = []"
| "set_class i v (NavigableString s # ns) = NavigableString s # set_class i v ns"
| "set_class i v (Tag j n c a cs # ns) =
     (if i = j then Tag j n (Some v) a cs else Tag j n c a (set_class i v cs)) # set_class i v ns"

fun set_attr :: "nat \<Rightarrow> string \<Rightarrow> string \<Rightarrow> node list \<Rightarrow> node list" where
  "set_attr i k v [] = []"
| "set_attr i k v (NavigableString s # ns) = NavigableString s # set_attr i k v ns"
| "set_attr i k v (Tag j n c a cs # ns) =
     (if i = j then Tag j n c (dict_set k v a) cs else Tag j n c a (set_attr i k v cs))
     # set_attr i k v ns"

text \<open>An identity no object of the tree has: a newly created element gets it.\<close>

fun max_id :: "node list \<Rightarrow> nat" where
  "max_id [] = 0"
| "max_id (NavigableString s # ns) = max_id ns"
| "max_id (Tag j n c a cs # ns) = max j (max (max_id cs) (max_id ns))"

definition fresh_id :: "node list \<Rightarrow> nat" where
  "fresh_id soup = Suc (max_id soup)"

fun is_tag :: "nat \<Rightarrow> node \<Rightarrow> bool" where
  "is_tag i (Tag j n c a cs) = (i = j)"
| "is_tag i (NavigableString s) = False"

text \<open>
  \<^verbatim>\<open>contents.index(anchor)\<close> is Python's \<^verbatim>\<open>list.index\<close>: the position of the first
  element of the list that \<^verbatim>\<open>==\<close> the anchor. That is the anchor itself, unless an equal
  element stands before it. With no such element \<^verbatim>\<open>list.index\<close> raises \<^verbatim>\<open>ValueError\<close>
  (here \<open>None\<close>), which cannot happen for an anchor that is in the list
  (\<open>py_index_member\<close> below).
\<close>

fun py_index :: "node \<Rightarrow> node list \<Rightarrow> nat option" where
  "py_index a [] = None"
| "py_index a (n # ns) = (if node_eq n a then Some 0 else map_option Suc (py_index a ns))"

text \<open>\<^verbatim>\<open>parent.insert(idx, x)\<close>; a position past the end appends.\<close>

definition insert_at :: "nat \<Rightarrow> node \<Rightarrow> node list \<Rightarrow> node list" where
  "insert_at idx x xs = take idx xs @ [x] @ drop idx xs"

text \<open>
  Lines 145-146 and 166-167, on the contents \<open>cs\<close> of the anchor's parent:
  \<^verbatim>\<open>idx = anchor.parent.contents.index(anchor) + 1; anchor.parent.insert(idx, soup)\<close>.
\<close>

definition insert_in_parent :: "nat \<Rightarrow> node \<Rightarrow> node list \<Rightarrow> node list" where
  "insert_in_parent i x cs =
     (case find (is_tag i) cs of
        None \<Rightarrow> cs
      | Some anchor \<Rightarrow>
          (case py_index anchor cs of None \<Rightarrow> cs | Some k \<Rightarrow> insert_at (k + 1) x cs))"

text \<open>The same, with the parent of the anchor found in the tree.\<close>

fun insert_label :: "nat \<Rightarrow> node \<Rightarrow> node list \<Rightarrow> node list"
  and insert_below :: "nat \<Rightarrow> node \<Rightarrow> node list \<Rightarrow> node list" where
  "insert_label i x cs =
     (if list_ex (is_tag i) cs then insert_in_parent i x cs else insert_below i x cs)"
| "insert_below i x [] = []"
| "insert_below i x (NavigableString s # ns) = NavigableString s # insert_below i x ns"
| "insert_below i x (Tag j n c a cs # ns) = Tag j n c a (insert_label i x cs) # insert_below i x ns"

section \<open>Annotator\<close>

text \<open>\<^verbatim>\<open>str(code)\<close> of an integer.\<close>

fun digits :: "nat \<Rightarrow> string" where
  "digits n = (if n < 10 then [''0123456789'' ! n] else digits (n div 10) @ [''0123456789'' ! (n mod 10)])"

declare digits.simps [simp del]

definition str_int :: "int \<Rightarrow> string" where
  "str_int i = (if i < 0 then CHR ''-'' # digits (nat (- i)) else digits (nat i))"

text \<open>
  The two indicator elements: \<^verbatim>\<open>SPAN_WARNING\<close> and \<^verbatim>\<open>SPAN_DANGER\<close> parsed, with the
  text appended to the span (lines 143-144 and 164-165).
\<close>

definition span_label :: "nat \<Rightarrow> string \<Rightarrow> string \<Rightarrow> node" where
  "span_label i style txt = Tag i ''span'' (Some [''label'', style]) [] [NavigableString txt]"

text \<open>\<^verbatim>\<open>add_class\<close> (lines 114-121): \<^verbatim>\<open>node['class'] = node.get('class', []) + [name, ]\<close>.\<close>

definition add_class :: "nat \<Rightarrow> string \<Rightarrow> node list \<Rightarrow> node list" where
  "add_class i name soup =
     set_class i ((case anchor_class soup i of None \<Rightarrow> [] | Some cl \<Rightarrow> cl) @ [name]) soup"

text \<open>\<^verbatim>\<open>ARCHIVE_URL.format(url=src)\<close> with \<^verbatim>\<open>ARCHIVE_URL = 'http://web.archive.org/web/*/{url}'\<close>.\<close>

definition ARCHIVE_URL :: "string \<Rightarrow> string" where
  "ARCHIVE_URL url = ''http://web.archive.org/web/*/'' @ url"

text \<open>\<^verbatim>\<open>change_to_archive\<close> (lines 123-129); \<^verbatim>\<open>anchor['href']\<close> raises without the key.\<close>

definition change_to_archive :: "nat \<Rightarrow> node list \<Rightarrow> error + node list" where
  "change_to_archive i soup =
     (case map_of (anchor_attrs soup i) ''href'' of
        None \<Rightarrow> Inl (KeyError ''href'')
      | Some src \<Rightarrow> Inr (set_attr i ''href'' (ARCHIVE_URL src) soup))"

text \<open>
  What \<^verbatim>\<open>for cls in classes\<close> iterates over: the items of a list, the characters of a
  string, the keys of a dictionary; the other values are not iterable.
\<close>

fun py_iter :: "pyval \<Rightarrow> error + string list" where
  "py_iter (PList xs) = Inr xs"
| "py_iter (PStr s) = Inr (map (\<lambda>c. [c]) s)"
| "py_iter (PDict d) = Inr (map fst d)"
| "py_iter v = Inl TypeError"

text \<open>
  The body shared by \<^verbatim>\<open>on_connection_error\<close> (lines 138-149) and
  \<^verbatim>\<open>on_access_error\<close> (lines 159-170), which differ in the indicator element only:
  the classes, then the label, then the archive link.
\<close>

definition annotate :: "nat \<Rightarrow> string \<Rightarrow> string \<Rightarrow> dict \<Rightarrow> node list \<Rightarrow> error + node list" where
  "annotate anchor style txt opts soup =
     (case get_opt opts ''classes'' of
        Inl e \<Rightarrow> Inl e
      | Inr classes \<Rightarrow>
     (case py_iter classes of
        Inl e \<Rightarrow> Inl e
      | Inr cls \<Rightarrow>
     (let soup1 = fold (add_class anchor) cls soup in
     (case get_opt opts ''labels'' of
        Inl e \<Rightarrow> Inl e
      | Inr labels \<Rightarrow>
     (let soup2 = (if truthy labels
                   then insert_label anchor (span_label (fresh_id soup1) style txt) soup1
                   else soup1) in
     (case get_opt opts ''archive'' of
        Inl e \<Rightarrow> Inl e
      | Inr archive \<Rightarrow>
          if truthy archive then change_to_archive anchor soup2 else Inr soup2))))))"

definition on_connection_error :: "nat \<Rightarrow> dict \<Rightarrow> node list \<Rightarrow> error + node list" where
  "on_connection_error anchor opts soup = annotate anchor ''label-danger'' ''not available'' opts soup"

definition on_access_error :: "nat \<Rightarrow> int \<Rightarrow> dict \<Rightarrow> node list \<Rightarrow> error + node list" where
  "on_access_error anchor code opts soup = annotate anchor ''label-warning'' (str_int code) opts soup"

section \<open>Document Processor\<close>

text \<open>
  \<^verbatim>\<open>siteurl and url.startswith(siteurl)\<close> (line 195), as a truth value: an empty (or
  otherwise false) \<^verbatim>\<open>SITEURL\<close> makes the conjunction false without looking at the URL;
  \<^verbatim>\<open>startswith\<close> raises \<^verbatim>\<open>TypeError\<close> for a true value that is not a string.
\<close>

definition is_internal :: "pyval \<Rightarrow> string \<Rightarrow> error + bool" where
  "is_internal siteurl url =
     (if \<not> truthy siteurl then Inr False
      else (case siteurl of PStr s \<Rightarrow> Inr (startswith url s) | _ \<Rightarrow> Inl TypeError))"

text \<open>
  Lines 200-207, for the Outcome \<open>(avail, success, code)\<close> of the anchor: \<^verbatim>\<open>not avail\<close>
  holds for \<^verbatim>\<open>False\<close> and for \<^verbatim>\<open>None\<close>, \<^verbatim>\<open>success == UNKNOWN\<close> for \<^verbatim>\<open>None\<close> only, and
  \<^verbatim>\<open>not success and code\<close> for a success that is not \<^verbatim>\<open>True\<close> and a code that is neither
  \<^verbatim>\<open>None\<close> nor 0. Each call of an annotation entry point is recorded in the trace.
\<close>

definition dispatch ::
  "nat \<Rightarrow> outcome \<Rightarrow> dict \<Rightarrow> world \<times> node list \<Rightarrow> world \<times> (error + node list)" where
  "dispatch anchor out opts s =
     (case s of (st, soup) \<Rightarrow>
      (case out of (avail, success, code) \<Rightarrow>
         if avail \<noteq> Some True then
           (case get_opt opts ''timeout_is_error'' of
              Inl e \<Rightarrow> (st, Inl e)
            | Inr timeout_is_error \<Rightarrow>
                if truthy timeout_is_error \<or> success = None
                then (emit (ConnectionErrorCall anchor) st, on_connection_error anchor opts soup)
                else (st, Inr soup))
         else
           (case code of
              None \<Rightarrow> (st, Inr soup)
            | Some c \<Rightarrow>
                if success \<noteq> Some True \<and> c \<noteq> 0
                then (emit (AccessErrorCall anchor c) st, on_access_error anchor c opts soup)
                else (st, Inr soup))))"

text \<open>The body of the loop (lines 192-207) for one anchor of the list.\<close>

definition check_anchor ::
  "network \<Rightarrow> pyval \<Rightarrow> dict \<Rightarrow> pyval \<Rightarrow> nat \<Rightarrow> world \<times> node list \<Rightarrow> world \<times> (error + node list)" where
  "check_anchor net siteurl opts cache_file anchor s =
     (case s of (st, soup) \<Rightarrow>
      (case map_of (anchor_attrs soup anchor) ''href'' of
         None \<Rightarrow> (st, Inr soup)
       | Some url \<Rightarrow>
           if \<not> startswith url ''http'' then (st, Inr soup)
           else
             (case is_internal siteurl url of
                Inl e \<Rightarrow> (st, Inl e)
              | Inr True \<Rightarrow> (st, Inr soup)
              | Inr False \<Rightarrow>
                  (case get_status_code net url opts cache_file st of
                     (st1, Inl e) \<Rightarrow> (st1, Inl e)
                   | (st1, Inr out) \<Rightarrow> dispatch anchor out opts (st1, soup)))))"

text \<open>The loop over the anchors (line 191); an exception ends the pass.\<close>

fun check_anchors ::
  "network \<Rightarrow> pyval \<Rightarrow> dict \<Rightarrow> pyval \<Rightarrow> nat list \<Rightarrow> world \<times> node list \<Rightarrow> world \<times> (error + node list)" where
  "check_anchors net siteurl opts cache_file [] s = (fst s, Inr (snd s))"
| "check_anchors net siteurl opts cache_file (anchor # anchors) s =
     (case check_anchor net siteurl opts cache_file anchor s of
        (st1, Inl e) \<Rightarrow> (st1, Inl e)
      | (st1, Inr soup1) \<Rightarrow> check_anchors net siteurl opts cache_file anchors (st1, soup1))"

text \<open>The content object the host hands over: \<^verbatim>\<open>instance._content\<close> and \<^verbatim>\<open>instance.settings\<close>.\<close>

record content_object =
  content :: "string option"
  settings :: dict

text \<open>
  \<^verbatim>\<open>user_enabled\<close> (lines 94-102): \<^verbatim>\<open>opt in inst.settings and inst.settings[opt]\<close>, as the
  truth value its caller takes of it.
\<close>

definition user_enabled :: "content_object \<Rightarrow> string \<Rightarrow> bool" where
  "user_enabled inst opt =
     (case map_of (settings inst) opt of None \<Rightarrow> False | Some v \<Rightarrow> truthy v)"

text \<open>\<^verbatim>\<open>d.get(k, default)\<close>.\<close>

definition dict_get :: "dict \<Rightarrow> string \<Rightarrow> pyval \<Rightarrow> pyval" where
  "dict_get d k dflt = (case map_of d k of None \<Rightarrow> dflt | Some v \<Rightarrow> v)"

text \<open>
  \<^verbatim>\<open>content_object_init\<close> (lines 172-209). Parsing and serialising belong to the HTML
  library and are parameters: \<open>parse\<close> is \<^verbatim>\<open>BeautifulSoup(_, 'html.parser')\<close> and
  \<open>serialize\<close> is \<^verbatim>\<open>str\<close> of the tree. \<^verbatim>\<open>opts.get\<close> needs \<^verbatim>\<open>DEADLINK_OPTS\<close> to be a
  dictionary. The result is the world after the call and the content object, or the
  exception that ended the call.
\<close>

definition content_object_init ::
  "(string \<Rightarrow> node list) \<Rightarrow> (node list \<Rightarrow> string) \<Rightarrow> network \<Rightarrow> content_object \<Rightarrow> world
     \<Rightarrow> world \<times> (error + content_object)" where
  "content_object_init parse serialize net inst st =
     (case content inst of
        None \<Rightarrow> (st, Inr inst)
      | Some markup \<Rightarrow>
          if \<not> user_enabled inst ''DEADLINK_VALIDATION'' then (st, Inr inst)
          else
            (let siteurl = dict_get (settings inst) ''SITEURL'' (PStr []) in
             (case dict_get (settings inst) ''DEADLINK_OPTS'' (PDict DEFAULT_OPTS) of
                PDict opts \<Rightarrow>
                  (let cache_file = dict_get opts ''cache_file'' PNone in
                   (case (if truthy cache_file then initialize_cache cache_file st else (st, None)) of
                      (st1, Some e) \<Rightarrow> (st1, Inl e)
                    | (st1, None) \<Rightarrow>
                        (let soup_doc = parse markup in
                         (case check_anchors net siteurl opts cache_file
                                 (find_all [''a'', ''object''] soup_doc) (st1, soup_doc) of
                            (st2, Inl e) \<Rightarrow> (st2, Inl e)
                          | (st2, Inr soup') \<Rightarrow>
                              (st2, Inr (inst\<lparr>content := Some (serialize soup')\<rparr>))))))
              | _ \<Rightarrow> (st, Inl AttributeError))))"

section \<open>Predicates of the statements\<close>

text \<open>
  A row is well formed when its availability column reads as true exactly when it has a
  status code; a world is well formed when every row of every cache table is.
\<close>

definition row_ok :: "row \<Rightarrow> bool" where
  "row_ok r = (case r of (availability, success, code) \<Rightarrow> py_bool availability = (code \<noteq> None))"

definition cache_inv :: "world \<Rightarrow> bool" where
  "cache_inv st = (\<forall>path tbl url r. dbs st path = Some tbl \<longrightarrow> tbl url = Some r \<longrightarrow> row_ok r)"


text \<open>The event is a call of an annotation entry point on anchor \<open>i\<close>.\<close>

fun annotation_of :: "nat \<Rightarrow> event \<Rightarrow> bool" where
  "annotation_of i (ConnectionErrorCall j) = (i = j)"
| "annotation_of i (AccessErrorCall j c) = (i = j)"
| "annotation_of i e = False"

text \<open>The event is a request for the URL, or a read or write of its cache entry.\<close>

fun url_event :: "string \<Rightarrow> event \<Rightarrow> bool" where
  "url_event u (HttpGet v t) = (u = v)"
| "url_event u (CacheGet v p) = (u = v)"
| "url_event u (CachePut v p r) = (u = v)"
| "url_event u e = False"

text \<open>The identities of all tags of a tree, in document order.\<close>

fun idents :: "node list \<Rightarrow> nat list" where
  "idents [] = []"
| "idents (NavigableString s # ns) = idents ns"
| "idents (Tag i n c a cs # ns) = i # idents cs @ idents ns"

text \<open>
  The anchor passes the filter of lines 192-196 and is checked: it has an \<^verbatim>\<open>href\<close> that
  starts with \<^verbatim>\<open>http\<close> and is not skipped as internal.
\<close>

definition qualifies :: "pyval \<Rightarrow> node list \<Rightarrow> nat \<Rightarrow> bool" where
  "qualifies siteurl soup i =
     (case map_of (anchor_attrs soup i) ''href'' of
        None \<Rightarrow> False
      | Some url \<Rightarrow> startswith url ''http'' \<and> is_internal siteurl url \<noteq> Inr True)"


text \<open>The value of the tag with identity \<open>i\<close> apart from its contents: name, class, attributes.\<close>

definition tag_info :: "nat \<Rightarrow> node list \<Rightarrow> (string \<times> string list option \<times> (string \<times> string) list) option" where
  "tag_info i soup = (case find_tag i soup of Some (Tag j n c a cs) \<Rightarrow> Some (n, c, a) | _ \<Rightarrow> None)"

section \<open>Concrete inputs\<close>

text \<open>A machine without any cache file, before the program has had any effect.\<close>

definition no_cache_world :: world where
  "no_cache_world = \<lparr>dbs = (\<lambda>p. None), trace = []\<rparr>"

text \<open>A network that answers every request the same way.\<close>

definition always :: "http_result \<Rightarrow> network" where
  "always r = (\<lambda>n u t. r)"

text \<open>
  The tree of
  \<^verbatim>\<open><p><a href="http://x/">t</a> <a href="http://x/">t</a></p>\<close>:
  two links to one URL, written the same way, in one paragraph.
\<close>

definition two_links :: "node list" where
  "two_links =
     [Tag 1 ''p'' None []
        [Tag 2 ''a'' None [(''href'', ''http://x/'')] [NavigableString ''t''],
         NavigableString '' '',
         Tag 3 ''a'' None [(''href'', ''http://x/'')] [NavigableString ''t'']]]"

text \<open>The default options with a cache file configured.\<close>

definition cached_opts :: dict where
  "cached_opts = (''cache_file'', PStr ''c.db'') # DEFAULT_OPTS"

text \<open>Options that switch the labels on and the archive link off, and set nothing else but the timeout.\<close>

definition label_opts :: dict where
  "label_opts =
     [(''labels'', PBool True), (''archive'', PBool False), (''timeout_duration_ms'', PInt 500)]"



section \<open>Evaluation\<close>

lemmas model_defs =
  check_anchor_def get_status_code_def get_cached_status_def update_cache_def
  initialize_cache_def dispatch_def annotate_def on_connection_error_def on_access_error_def
  get_opt_def DEFAULT_OPTS_def emit_def requests_made_def is_internal_def startswith_def
  anchor_attrs_def anchor_class_def add_class_def change_to_archive_def ARCHIVE_URL_def
  insert_in_parent_def insert_at_def span_label_def fresh_id_def dict_eq_def str_int_def
  content_object_init_def user_enabled_def dict_get_def
  always_def no_cache_world_def two_links_def cached_opts_def label_opts_def Let_def

section \<open>The guard\<close>

lemma user_enabled_iff:
  "user_enabled inst opt \<longleftrightarrow> (\<exists>v. map_of (settings inst) opt = Some v \<and> truthy v)"
  by (simp add: user_enabled_def split: option.splits)

text \<open>
  Claim C8. When the content is absent, or the setting \<^verbatim>\<open>DEADLINK_VALIDATION\<close> is absent
  or false, the processor does nothing: it returns without an exception, the content
  object is the one it was given, and the world is unchanged: no cache file is
  initialised or read, no request is made, and nothing is added to the trace. This holds
  for every parser, serialiser, network, and world.
\<close>

theorem guard_does_nothing:
  assumes "content inst = None
           \<or> map_of (settings inst) ''DEADLINK_VALIDATION'' = None
           \<or> (\<exists>v. map_of (settings inst) ''DEADLINK_VALIDATION'' = Some v \<and> \<not> truthy v)"
  shows "content_object_init parse serialize net inst st = (st, Inr inst)"
proof -
  from assms have "content inst = None \<or> \<not> user_enabled inst ''DEADLINK_VALIDATION''"
    by (auto simp: user_enabled_iff)
  then show ?thesis
    by (auto simp: content_object_init_def split: option.splits)
qed

theorem guard_does_nothing_witness:
  "map_of (settings \<lparr>content = Some ''in'', settings = [(''DEADLINK_VALIDATION'', PBool False)]\<rparr>)
       ''DEADLINK_VALIDATION'' = Some (PBool False)
   \<and> content_object_init (\<lambda>markup. two_links) (\<lambda>soup. ''out'') (always (Response 404))
        \<lparr>content = Some ''in'', settings = [(''DEADLINK_VALIDATION'', PBool False)]\<rparr> no_cache_world
       = (no_cache_world,
          Inr \<lparr>content = Some ''in'', settings = [(''DEADLINK_VALIDATION'', PBool False)]\<rparr>)"
  using guard_does_nothing
    [of "\<lparr>content = Some ''in'', settings = [(''DEADLINK_VALIDATION'', PBool False)]\<rparr>"
        "\<lambda>markup. two_links" "\<lambda>soup. ''out''" "always (Response 404)" no_cache_world]
  by simp

section \<open>Outcome Classifier: the invariant of the Outcome\<close>


lemma cache_inv_emit [simp]: "cache_inv (emit e st) = cache_inv st"
  by (simp add: cache_inv_def emit_def)










section \<open>Timeouts\<close>







section \<open>The trace of a pass\<close>

lemma trace_emit [simp]: "trace (emit e st) = trace st @ [e]"
  by (simp add: emit_def)

lemma annotation_not_url: "url_event u e \<Longrightarrow> \<not> annotation_of i e"
  by (cases e) auto

lemma annotation_unique: "annotation_of i e \<Longrightarrow> annotation_of j e \<Longrightarrow> i = j"
  by (cases e) auto

lemma get_cached_status_trace:
  "\<exists>ev. trace (fst (get_cached_status url cache_file st)) = trace st @ ev \<and> list_all (url_event url) ev"
  by (cases cache_file) (auto simp: get_cached_status_def split: option.splits)

lemma update_cache_trace:
  "\<exists>ev. trace (fst (update_cache url out cache_file st)) = trace st @ ev \<and> list_all (url_event url) ev"
  by (cases cache_file) (auto simp: update_cache_def Let_def split: option.splits prod.splits)

lemma get_status_code_trace:
  "\<exists>ev. trace (fst (get_status_code net url opts cache_file st)) = trace st @ ev
        \<and> list_all (url_event url) ev"
proof -
  obtain st1 r1 where g:
    "(if truthy cache_file then get_cached_status url cache_file st else (st, Inr None)) = (st1, r1)"
    by force
  obtain ev1 where ev1: "trace st1 = trace st @ ev1" "list_all (url_event url) ev1"
    using g get_cached_status_trace [of url cache_file st]
    by (cases "truthy cache_file") auto
  show ?thesis
  proof (cases r1)
    case (Inl e)
    with g ev1 show ?thesis by (simp add: get_status_code_def)
  next
    case (Inr hit)
    show ?thesis
    proof (cases hit)
      case (Some cached)
      with g Inr ev1 show ?thesis by (simp add: get_status_code_def)
    next
      case None
      show ?thesis
      proof (cases "map_of opts ''timeout_duration_ms''")
        case no_ms: None
        with g Inr None ev1 show ?thesis by (simp add: get_status_code_def)
      next
        case (Some ms)
        show ?thesis
        proof (cases "timeout_seconds ms")
          case bad: (Inl e)
          with g Inr None Some ev1 show ?thesis by (simp add: get_status_code_def)
        next
          case secs: (Inr t)
          let ?st2 = "emit (HttpGet url t) st1"
          let ?out = "classify (net (requests_made st1) url t)"
          obtain ev3 where ev3: "trace (fst (update_cache url ?out cache_file ?st2)) = trace ?st2 @ ev3"
            "list_all (url_event url) ev3"
            using update_cache_trace by blast
          have "trace (fst (get_status_code net url opts cache_file st))
                  = trace st @ (ev1 @ HttpGet url t # (if truthy cache_file then ev3 else []))"
            using g Inr None Some secs ev1 ev3
            by (auto simp: get_status_code_def Let_def split: prod.splits option.splits)
          moreover have "list_all (url_event url) (ev1 @ HttpGet url t # (if truthy cache_file then ev3 else []))"
            using ev1 ev3 by simp
          ultimately show ?thesis by blast
        qed
      qed
    qed
  qed
qed

lemma dispatch_trace:
  "\<exists>ev. trace (fst (dispatch anchor out opts (st, soup))) = trace st @ ev
        \<and> list_all (annotation_of anchor) ev \<and> length ev \<le> 1"
  by (cases out) (auto simp: dispatch_def split: sum.splits option.splits)

lemma not_qualifies_skip:
  "\<not> qualifies siteurl soup anchor \<Longrightarrow> check_anchor net siteurl opts cache_file anchor (st, soup) = (st, Inr soup)"
  by (auto simp: qualifies_def check_anchor_def split: option.splits sum.splits bool.splits)

lemma check_anchor_trace:
  "\<exists>ev. trace (fst (check_anchor net siteurl opts cache_file anchor (st, soup))) = trace st @ ev
        \<and> list_all (\<lambda>e. annotation_of anchor e
                       \<or> (\<exists>url. map_of (anchor_attrs soup anchor) ''href'' = Some url \<and> url_event url e)) ev
        \<and> length (filter (annotation_of anchor) ev) \<le> 1
        \<and> (ev \<noteq> [] \<longrightarrow> qualifies siteurl soup anchor)"
proof (cases "qualifies siteurl soup anchor")
  case False
  then show ?thesis by (simp add: not_qualifies_skip)
next
  case True
  then obtain url where url: "map_of (anchor_attrs soup anchor) ''href'' = Some url"
    "startswith url ''http''" "is_internal siteurl url \<noteq> Inr True"
    by (auto simp: qualifies_def split: option.splits)
  obtain ev1 where ev1: "trace (fst (get_status_code net url opts cache_file st)) = trace st @ ev1"
    "list_all (url_event url) ev1"
    using get_status_code_trace by blast
  obtain st1 r1 where g: "get_status_code net url opts cache_file st = (st1, r1)"
    by force
  have no_ann: "filter (annotation_of anchor) ev1 = []"
    using ev1(2) by (auto simp: filter_empty_conv list_all_iff annotation_not_url)
  have ev1': "list_all (\<lambda>e. annotation_of anchor e
                       \<or> (\<exists>url. map_of (anchor_attrs soup anchor) ''href'' = Some url \<and> url_event url e)) ev1"
    using ev1(2) url(1) by (auto simp: list_all_iff)
  show ?thesis
  proof (cases "is_internal siteurl url")
    case (Inl e)
    with url show ?thesis by (simp add: check_anchor_def True)
  next
    case (Inr b)
    with url(3) have ext: "is_internal siteurl url = Inr False" by simp
    show ?thesis
    proof (cases r1)
      case (Inl e)
      with url ext g ev1 ev1' no_ann True show ?thesis by (simp add: check_anchor_def)
    next
      case out: (Inr out)
      obtain ev2 where ev2: "trace (fst (dispatch anchor out opts (st1, soup))) = trace st1 @ ev2"
        "list_all (annotation_of anchor) ev2" "length ev2 \<le> 1"
        using dispatch_trace by blast
      have "trace (fst (check_anchor net siteurl opts cache_file anchor (st, soup))) = trace st @ (ev1 @ ev2)"
        using url ext g out ev1 ev2 by (simp add: check_anchor_def)
      moreover have "length (filter (annotation_of anchor) (ev1 @ ev2)) \<le> 1"
        using no_ann ev2(3) by (simp add: le_trans [OF length_filter_le])
      moreover have "list_all (\<lambda>e. annotation_of anchor e
                       \<or> (\<exists>url. map_of (anchor_attrs soup anchor) ''href'' = Some url \<and> url_event url e)) (ev1 @ ev2)"
        using ev1' ev2(2) by (auto simp: list_all_iff)
      ultimately show ?thesis using True by blast
    qed
  qed
qed


lemma check_anchors_annotations:
  "check_anchors net siteurl opts cache_file anchors (st, soup) = (st', r) \<Longrightarrow>
   \<exists>ev. trace st' = trace st @ ev \<and> (\<forall>i. length (filter (annotation_of i) ev) \<le> count_list anchors i)"
proof (induction anchors arbitrary: st soup)
  case Nil
  then show ?case by simp
next
  case (Cons a anchors)
  obtain st1 r1 where step: "check_anchor net siteurl opts cache_file a (st, soup) = (st1, r1)"
    by force
  obtain ev1 where ev1: "trace st1 = trace st @ ev1"
    "list_all (\<lambda>e. annotation_of a e
                \<or> (\<exists>url. map_of (anchor_attrs soup a) ''href'' = Some url \<and> url_event url e)) ev1"
    "length (filter (annotation_of a) ev1) \<le> 1"
    using check_anchor_trace [of net siteurl opts cache_file a st soup] step by auto
  have other: "filter (annotation_of i) ev1 = []" if "i \<noteq> a" for i
    using ev1(2) that
    by (auto simp: filter_empty_conv list_all_iff dest: annotation_unique annotation_not_url)
  have bound1: "length (filter (annotation_of i) ev1) \<le> count_list [a] i" for i
    using ev1(3) other [of i] by (cases "i = a") auto
  show ?case
  proof (cases r1)
    case (Inl e)
    with Cons.prems step have "st' = st1" by simp
    moreover have "length (filter (annotation_of i) ev1) \<le> count_list (a # anchors) i" for i
      using bound1 [of i] by (simp split: if_splits)
    ultimately show ?thesis using ev1(1) by blast
  next
    case (Inr soup1)
    with Cons.prems step
    have "check_anchors net siteurl opts cache_file anchors (st1, soup1) = (st', r)" by simp
    from Cons.IH [OF this] obtain ev2 where ev2: "trace st' = trace st1 @ ev2"
      "\<forall>i. length (filter (annotation_of i) ev2) \<le> count_list anchors i"
      by blast
    have "trace st' = trace st @ (ev1 @ ev2)"
      using ev1(1) ev2(1) by simp
    moreover have "length (filter (annotation_of i) (ev1 @ ev2)) \<le> count_list (a # anchors) i" for i
      using bound1 [of i] ev2(2) [rule_format, of i] by (simp split: if_splits)
    ultimately show ?thesis by blast
  qed
qed

lemma find_all_subset: "set (find_all names soup) \<subseteq> set (idents soup)"
  by (induction names soup rule: find_all.induct) auto

lemma distinct_find_all: "distinct (idents soup) \<Longrightarrow> distinct (find_all names soup)"
proof (induction names soup rule: find_all.induct)
  case (3 names i n c a cs ns)
  then show ?case
    using find_all_subset [of names cs] find_all_subset [of names ns]
    by (auto simp: disjoint_iff)
qed simp_all

lemma distinct_count_le_1: "distinct xs \<Longrightarrow> count_list xs x \<le> 1"
  by (induction xs) auto

lemma dispatch_ok_200:
  "dispatch anchor (Some True, Some True, Some 200) opts (st, soup) = (st, Inr soup)"
  by (simp add: dispatch_def)

text \<open>
  Claim C9. In one pass over the anchors that \<^verbatim>\<open>find_all\<close> enumerates (each tag of the
  tree once), the trace gains at most one call of an annotation entry point per anchor:
  \<^verbatim>\<open>on_connection_error\<close> and \<^verbatim>\<open>on_access_error\<close> together are called at most once on
  it. For the Outcome (reachable, ok, 200) neither is called and the tree stays as it is.
\<close>

theorem one_annotation_per_anchor:
  assumes "distinct (idents soup)"
    and "check_anchors net siteurl opts cache_file (find_all names soup) (st, soup) = (st', r)"
  shows "(\<exists>ev. trace st' = trace st @ ev \<and> (\<forall>i. length (filter (annotation_of i) ev) \<le> 1))
         \<and> dispatch anchor (Some True, Some True, Some 200) opts (st, soup) = (st, Inr soup)"
proof -
  from check_anchors_annotations [OF assms(2)] obtain ev where ev: "trace st' = trace st @ ev"
    "\<forall>i. length (filter (annotation_of i) ev) \<le> count_list (find_all names soup) i"
    by blast
  have "count_list (find_all names soup) i \<le> 1" for i
    using distinct_find_all [OF assms(1), of names] by (rule distinct_count_le_1)
  with ev(2) have "\<forall>i. length (filter (annotation_of i) ev) \<le> 1"
    by (meson le_trans)
  with ev(1) show ?thesis by (auto simp: dispatch_ok_200)
qed

theorem one_annotation_per_anchor_witness:
  "(\<exists>ev. trace (fst (check_anchors (always (Response 404)) (PStr []) label_opts PNone
                       (find_all [''a'', ''object''] two_links) (no_cache_world, two_links)))
          = trace no_cache_world @ ev
        \<and> (\<forall>i. length (filter (annotation_of i) ev) \<le> 1))
   \<and> dispatch 2 (Some True, Some True, Some 200) label_opts (no_cache_world, two_links)
       = (no_cache_world, Inr two_links)"
proof -
  have d: "distinct (idents two_links)"
    by (simp add: two_links_def)
  show ?thesis
    using one_annotation_per_anchor [OF d prod.collapse [symmetric], of "always (Response 404)" "PStr []" label_opts PNone "[''a'', ''object'']" no_cache_world 2]
    by simp
qed

section \<open>The content after a pass\<close>




section \<open>Internal links\<close>

lemma find_tag_Tag: "find_tag i soup = Some t \<Longrightarrow> \<exists>n c a cs. t = Tag i n c a cs"
  by (induction i soup rule: find_tag.induct) (auto split: if_splits option.splits)

lemma tag_info_simps [simp]:
  "tag_info i [] = None"
  "tag_info i (NavigableString s # ns) = tag_info i ns"
  "tag_info i (Tag j n c a cs # ns) =
     (if i = j then Some (n, c, a)
      else (case tag_info i cs of Some x \<Rightarrow> Some x | None \<Rightarrow> tag_info i ns))"
  by (auto simp: tag_info_def split: option.splits node.splits dest: find_tag_Tag)






















section \<open>Where the code departs from the specification\<close>

text \<open>
  What a cache hit returns for an Outcome that was just stored: the known values come
  back, and so does the code; an unknown (\<open>None\<close>) comes back as \<^verbatim>\<open>False\<close>.
\<close>

lemma cache_round_trip:
  assumes "dbs st path = Some tbl"
  shows "snd (get_cached_status url (PStr path)
                (fst (update_cache url (availability, success, code) (PStr path) st)))
           = Inr (Some (Some (availability = Some True), Some (success = Some True), code))"
proof -
  have "py_bool (sql_of_bool b) = (b = Some True)" for b
    by (cases b) auto
  with assms show ?thesis
    by (simp add: get_cached_status_def update_cache_def emit_def Let_def)
qed

text \<open>
  Claim C1 (the code departs from it). A cache hit does not return the Outcome that was
  stored: \<^verbatim>\<open>get_cached_status\<close> applies \<^verbatim>\<open>bool\<close> to the two columns, and \<^verbatim>\<open>bool(None)\<close>
  is \<^verbatim>\<open>False\<close>. With the cache enabled, a URL whose request times out is classified
  (unreachable, unknown, no code) and stored so; the next lookup of the same URL returns
  (unreachable, not-ok, no code). In one pass over two anchors to that URL the first
  anchor is annotated (\<open>ConnectionErrorCall 2\<close>) and the second, served from the cache,
  is not.
\<close>

theorem cache_hit_loses_unknown:
  "snd (get_status_code (always TimeoutExc) ''http://x/'' cached_opts (PStr ''c.db'')
          (fst (initialize_cache (PStr ''c.db'') no_cache_world)))
     = Inr (Some False, None, None)
   \<and> snd (get_status_code (always TimeoutExc) ''http://x/'' cached_opts (PStr ''c.db'')
          (fst (get_status_code (always TimeoutExc) ''http://x/'' cached_opts (PStr ''c.db'')
                 (fst (initialize_cache (PStr ''c.db'') no_cache_world)))))
     = Inr (Some False, Some False, None)
   \<and> trace (fst (check_anchors (always TimeoutExc) (PStr []) cached_opts (PStr ''c.db'') [2, 3]
                 (fst (initialize_cache (PStr ''c.db'') no_cache_world), two_links)))
     = [CacheInit ''c.db'',
        CacheGet ''http://x/'' ''c.db'', HttpGet ''http://x/'' 1,
        CachePut ''http://x/'' ''c.db'' (Some 0, None, None), ConnectionErrorCall 2,
        CacheGet ''http://x/'' ''c.db'']"
  by (simp add: model_defs)

text \<open>
  For the Outcome of a connection failure that is not a timeout, the call of
  \<^verbatim>\<open>on_connection_error\<close> depends on \<^verbatim>\<open>timeout_is_error\<close> alone.
\<close>

lemma dispatch_connection_failure:
  "dispatch anchor (None, Some False, None) opts (st, soup)
     = (case get_opt opts ''timeout_is_error'' of
          Inl e \<Rightarrow> (st, Inl e)
        | Inr flag \<Rightarrow>
            if truthy flag
            then (emit (ConnectionErrorCall anchor) st, on_connection_error anchor opts soup)
            else (st, Inr soup))"
  by (simp add: dispatch_def split: sum.splits)

text \<open>
  Claim C2 (the code departs from it). With the default options (\<^verbatim>\<open>timeout_is_error\<close>
  false), a request that fails with a \<^verbatim>\<open>RequestException\<close> other than a timeout is
  classified (unknown, not-ok, no code), and \<^verbatim>\<open>on_connection_error\<close> is not called: the
  test of line 202 is \<^verbatim>\<open>timeout_is_error or success == UNKNOWN\<close>, and success is
  \<^verbatim>\<open>False\<close> here. The pass makes its two requests and leaves the tree as it was.
\<close>

theorem connection_failure_not_annotated_by_default:
  "check_anchors (always RequestExc) (PStr []) DEFAULT_OPTS PNone [2, 3] (no_cache_world, two_links)
     = (no_cache_world\<lparr>trace := [HttpGet ''http://x/'' 1, HttpGet ''http://x/'' 1]\<rparr>, Inr two_links)"
  by (simp add: model_defs)

text \<open>\<^verbatim>\<open>get_opt\<close> resolves each key by itself: the user's value, else the default.\<close>

lemma get_opt_present: "map_of opts name = Some v \<Longrightarrow> get_opt opts name = Inr v"
  by (simp add: get_opt_def)

lemma get_opt_fallback:
  "map_of opts name = None \<Longrightarrow> map_of DEFAULT_OPTS name = Some v \<Longrightarrow> get_opt opts name = Inr v"
  by (simp add: get_opt_def)

text \<open>
  Claim C4 (the code departs from it). \<^verbatim>\<open>get_opt\<close> falls back to the default for a
  missing key, and would give 1000 for \<^verbatim>\<open>timeout_duration_ms\<close>; the classifier reads
  \<^verbatim>\<open>opts['timeout_duration_ms']\<close> instead, so options without that key raise
  \<^verbatim>\<open>KeyError\<close> at the first link that is checked, and the pass ends without replacing
  the content.
\<close>

theorem missing_timeout_raises:
  "get_opt [(''labels'', PBool True)] ''timeout_duration_ms'' = Inr (PInt 1000)
   \<and> get_status_code (always (Response 200)) ''http://x/'' [(''labels'', PBool True)] PNone no_cache_world
       = (no_cache_world, Inl (KeyError ''timeout_duration_ms''))
   \<and> content_object_init (\<lambda>markup. two_links) (\<lambda>soup. ''out'') (always (Response 200))
        \<lparr>content = Some ''in'',
         settings = [(''DEADLINK_VALIDATION'', PBool True),
                     (''DEADLINK_OPTS'', PDict [(''labels'', PBool True)])]\<rparr> no_cache_world
       = (no_cache_world, Inl (KeyError ''timeout_duration_ms''))"
  by (simp add: model_defs)

text \<open>
  A 404 is classified (reachable, not-ok, 404) and dispatched to \<^verbatim>\<open>on_access_error\<close>,
  and the text of its label is \<open>''404''\<close>.
\<close>

lemma dispatch_404:
  "dispatch anchor (classify (Response 404)) opts (st, soup)
     = (emit (AccessErrorCall anchor 404) st, on_access_error anchor 404 opts soup)"
  by (simp add: dispatch_def)

lemma str_int_404: "str_int 404 = ''404''"
  by (simp add: str_int_def digits.simps)

text \<open>
  The label goes right after the anchor when no element before the anchor, in its
  parent's contents, is equal to it.
\<close>

lemma dict_eq_refl: "dict_eq a a"
  by (simp add: dict_eq_def list_all_iff)

lemma nodes_eq_refl: "(\<And>n. n \<in> set ns \<Longrightarrow> node_eq n n) \<Longrightarrow> nodes_eq ns ns"
  by (induction ns) simp_all

lemma node_eq_refl: "node_eq n n"
  by (induction n) (simp_all add: dict_eq_refl nodes_eq_refl)

lemma py_index_member: "a \<in> set cs \<Longrightarrow> py_index a cs \<noteq> None"
  by (induction cs) (auto simp: node_eq_refl)

lemma py_index_first:
  "k < length cs \<Longrightarrow> node_eq (cs ! k) a \<Longrightarrow> (\<forall>m<k. \<not> node_eq (cs ! m) a) \<Longrightarrow> py_index a cs = Some k"
proof (induction cs arbitrary: k)
  case Nil
  then show ?case by simp
next
  case (Cons c cs)
  show ?case
  proof (cases k)
    case 0
    with Cons.prems show ?thesis by simp
  next
    case (Suc k')
    with Cons.prems have "\<not> node_eq c a" by auto
    moreover have "py_index a cs = Some k'"
      using Cons.prems Suc by (intro Cons.IH) auto
    ultimately show ?thesis using Suc by simp
  qed
qed

lemma insert_in_parent_after_anchor:
  assumes "k < length cs" and "is_tag i (cs ! k)"
    and "\<forall>m<k. \<not> is_tag i (cs ! m) \<and> \<not> node_eq (cs ! m) (cs ! k)"
  shows "insert_in_parent i x cs = take (Suc k) cs @ x # drop (Suc k) cs"
proof -
  have "find (is_tag i) cs = Some (cs ! k)"
    using assms by (auto simp: find_Some_iff)
  moreover have "py_index (cs ! k) cs = Some k"
    using assms by (intro py_index_first) (auto simp: node_eq_refl)
  ultimately show ?thesis
    by (simp add: insert_in_parent_def insert_at_def)
qed

text \<open>
  Claim C7 (the code departs from it). Both links of \<open>two_links\<close> answer 404, labels are
  on and the archive link is off. Each anchor is classified (reachable, not-ok, 404) and
  \<^verbatim>\<open>on_access_error\<close> is called on it, but the label of the second anchor is not put
  after the second anchor: \<^verbatim>\<open>contents.index(anchor)\<close> finds the first element equal to
  it, which is the first anchor, so both labels stand after the first anchor and none
  after the second.
\<close>

theorem second_label_misplaced:
  "check_anchors (always (Response 404)) (PStr []) label_opts PNone [2, 3] (no_cache_world, two_links)
     = (no_cache_world\<lparr>trace := [HttpGet ''http://x/'' (1 / 2), AccessErrorCall 2 404,
                                  HttpGet ''http://x/'' (1 / 2), AccessErrorCall 3 404]\<rparr>,
        Inr [Tag 1 ''p'' None []
               [Tag 2 ''a'' None [(''href'', ''http://x/'')] [NavigableString ''t''],
                Tag 5 ''span'' (Some [''label'', ''label-warning'']) [] [NavigableString ''404''],
                Tag 4 ''span'' (Some [''label'', ''label-warning'']) [] [NavigableString ''404''],
                NavigableString '' '',
                Tag 3 ''a'' None [(''href'', ''http://x/'')] [NavigableString ''t'']]])"
  by (simp add: model_defs digits.simps)

end
